theory Spec2Isabelle
  imports Main "HOL-Library.Word"
begin

section \<open>JavaScript strings\<close>

text \<open>
  A JavaScript string is a sequence of 16-bit code units. The literals of the source are
  ASCII; \<open>js\<close> turns an Isabelle literal into its code units.
\<close>

type_synonym code_unit = "16 word"
type_synonym jsstring = "code_unit list"

definition js :: "string \<Rightarrow> jsstring" where
  "js s = map of_char s"

text \<open>
  \<^verbatim>\<open>String.prototype.trim\<close> strips the WhiteSpace and LineTerminator code points of
  ECMAScript from both ends; all of them are single code units.
\<close>

definition isWhiteSpace :: "code_unit \<Rightarrow> bool" where
  "isWhiteSpace c \<longleftrightarrow>
     c \<in> set [0x0009, 0x000A, 0x000B, 0x000C, 0x000D, 0x0020, 0x00A0, 0x1680,
               0x2028, 0x2029, 0x202F, 0x205F, 0x3000, 0xFEFF]
     \<or> (0x2000 \<le> c \<and> c \<le> 0x200A)"

definition trim :: "jsstring \<Rightarrow> jsstring" where
  "trim s = rev (dropWhile isWhiteSpace (rev (dropWhile isWhiteSpace s)))"

text \<open>Template literals print a number in decimal: \<^verbatim>\<open>`${response.status}`\<close>.\<close>

fun decimal :: "nat \<Rightarrow> jsstring" where
  "decimal n = (if n < 10 then [of_nat (48 + n)] else decimal (n div 10) @ [of_nat (48 + n mod 10)])"

section \<open>Thrown values\<close>

text \<open>
  What a \<^verbatim>\<open>catch (error)\<close> can receive: an \<^verbatim>\<open>Error\<close> (or a subclass such as TypeError,
  URIError, FetchError) with its message, or a value that is not an \<^verbatim>\<open>Error\<close>.
  A fallible call returns \<open>thrown + 'a\<close>, \<open>Inl\<close> the thrown value.
\<close>

datatype thrown = ErrorObj jsstring | NonError

section \<open>encodeURIComponent\<close>

text \<open>
  The built-in of ECMAScript (Encode with the unreserved set of URI components): an
  unreserved code unit is copied, every other code point is written as the percent-escaped
  octets of its UTF-8 form, and a surrogate without its partner throws URIError.
\<close>

definition uriUnescaped :: "code_unit \<Rightarrow> bool" where
  "uriUnescaped c \<longleftrightarrow>
     (0x41 \<le> c \<and> c \<le> 0x5A) \<or> (0x61 \<le> c \<and> c \<le> 0x7A) \<or> (0x30 \<le> c \<and> c \<le> 0x39)
     \<or> c \<in> set [0x2D, 0x5F, 0x2E, 0x21, 0x7E, 0x2A, 0x27, 0x28, 0x29]"

definition isLeadSurrogate :: "code_unit \<Rightarrow> bool" where
  "isLeadSurrogate c \<longleftrightarrow> 0xD800 \<le> c \<and> c \<le> 0xDBFF"

definition isTrailSurrogate :: "code_unit \<Rightarrow> bool" where
  "isTrailSurrogate c \<longleftrightarrow> 0xDC00 \<le> c \<and> c \<le> 0xDFFF"

definition hexDigit :: "nat \<Rightarrow> code_unit" where
  "hexDigit d = (if d < 10 then of_nat (48 + d) else of_nat (55 + d))"

definition percentEscape :: "nat \<Rightarrow> jsstring" where
  "percentEscape octet = [0x25, hexDigit (octet div 16), hexDigit (octet mod 16)]"

definition utf8 :: "nat \<Rightarrow> nat list" where
  "utf8 cp =
     (if cp < 0x80 then [cp]
      else if cp < 0x800 then [0xC0 + cp div 64, 0x80 + cp mod 64]
      else if cp < 0x10000 then [0xE0 + cp div 4096, 0x80 + (cp div 64) mod 64, 0x80 + cp mod 64]
      else [0xF0 + cp div 262144, 0x80 + (cp div 4096) mod 64, 0x80 + (cp div 64) mod 64,
            0x80 + cp mod 64])"

definition surrogatePairToCodePoint :: "code_unit \<Rightarrow> code_unit \<Rightarrow> nat" where
  "surrogatePairToCodePoint lead trail =
     (unat lead - 0xD800) * 0x400 + (unat trail - 0xDC00) + 0x10000"

definition uriError :: thrown where
  "uriError = ErrorObj (js ''URI malformed'')"

definition escaped :: "nat \<Rightarrow> (thrown + jsstring) \<Rightarrow> thrown + jsstring" where
  "escaped cp rest =
     (case rest of Inl e \<Rightarrow> Inl e | Inr r \<Rightarrow> Inr (concat (map percentEscape (utf8 cp)) @ r))"

fun encodeURIComponent :: "jsstring \<Rightarrow> thrown + jsstring" where
  "encodeURIComponent [] = Inr []"
| "encodeURIComponent (c # cs) =
     (if uriUnescaped c then
        (case encodeURIComponent cs of Inl e \<Rightarrow> Inl e | Inr r \<Rightarrow> Inr (c # r))
      else if isTrailSurrogate c then Inl uriError
      else if isLeadSurrogate c then
        (case cs of
           [] \<Rightarrow> Inl uriError
         | d # ds \<Rightarrow>
             if isTrailSurrogate d
             then escaped (surrogatePairToCodePoint c d) (encodeURIComponent ds)
             else Inl uriError)
      else escaped (unat c) (encodeURIComponent cs))"

section \<open>The geocoding tool: tools/openstreetmap.ts\<close>

text \<open>
  \<^verbatim>\<open>interface NominatimResult\<close>. JavaScript numbers are kept abstract in the type
  parameter \<open>'n\<close>; \<^verbatim>\<open>parseFloat\<close> is a parameter of the model. The optional fields
  \<^verbatim>\<open>class\<close> and \<^verbatim>\<open>type\<close> carry a prime, since \<open>class\<close> is a keyword here.
\<close>

record 'n NominatimResult =
  place_id :: 'n
  licence :: jsstring
  osm_type :: jsstring
  osm_id :: 'n
  lat :: jsstring
  lon :: jsstring
  display_name :: jsstring
  address :: "(jsstring \<times> jsstring) list"
  boundingbox :: "jsstring list"
  importance :: "'n option"
  class' :: "jsstring option"
  type' :: "jsstring option"

text \<open>
  What \<^verbatim>\<open>await response.json()\<close> yields, at the type the source casts it to
  (\<^verbatim>\<open>as NominatimResult[]\<close>), and \<^verbatim>\<open>null\<close>, the falsy body that \<^verbatim>\<open>!data\<close> tests for.
\<close>

datatype 'n json_body = JsonNull | JsonArray "'n NominatimResult list"

text \<open>
  The response of node-fetch as the function reads it: the status line and the two body
  readers, each of which may reject. \<^verbatim>\<open>response.ok\<close> is node-fetch's getter.
\<close>

record 'n response =
  status :: nat
  statusText :: jsstring
  body_text :: "thrown + jsstring"
  body_json :: "thrown + 'n json_body"

definition ok :: "'n response \<Rightarrow> bool" where
  "ok r \<longleftrightarrow> 200 \<le> status r \<and> status r < 300"

record request =
  url :: jsstring
  headers :: "(jsstring \<times> jsstring) list"

text \<open>
  The values of the fields of a result object, and the object itself as its properties in
  the order the literal writes them. A property the source sets from a missing optional
  field is \<^verbatim>\<open>undefined\<close>.
\<close>

datatype 'n jsvalue =
    JUndefined
  | JBool bool
  | JNum 'n
  | JStr jsstring
  | JDict "(jsstring \<times> jsstring) list"

type_synonym 'n envelope = "(jsstring \<times> 'n jsvalue) list"

definition optional :: "jsstring option \<Rightarrow> 'n jsvalue" where
  "optional v = (case v of None \<Rightarrow> JUndefined | Some s \<Rightarrow> JStr s)"

fun errorMessage :: "thrown \<Rightarrow> jsstring" where
  "errorMessage (ErrorObj message) = message"
| "errorMessage NonError = js ''An unknown error occurred''"

text \<open>
  The body of the \<^verbatim>\<open>try\<close> block, from the outcome of \<^verbatim>\<open>await fetch(apiUrl, ...)\<close> on:
  \<open>Inl\<close> is a value thrown inside the block, \<open>Inr\<close> the object it returns.
\<close>

definition tryBlock ::
  "(jsstring \<Rightarrow> 'n) \<Rightarrow> jsstring \<Rightarrow> (thrown + 'n response) \<Rightarrow> thrown + 'n envelope" where
  "tryBlock parseFloat query fetched =
     (case fetched of
        Inl e \<Rightarrow> Inl e
      | Inr response \<Rightarrow>
          if \<not> ok response then
            (case body_text response of
               Inl e \<Rightarrow> Inl e
             | Inr errorText \<Rightarrow>
                 Inl (ErrorObj (js ''Nominatim API request failed with status ''
                        @ decimal (status response) @ js '': '' @ statusText response)))
          else
            (case body_json response of
               Inl e \<Rightarrow> Inl e
             | Inr data \<Rightarrow>
                 (case data of
                    JsonNull \<Rightarrow>
                      Inr [(js ''query'', JStr query),
                           (js ''found'', JBool False),
                           (js ''message'', JStr (js ''Could not find location information for ''
                              @ [0x22] @ query @ [0x22] @ js ''.''))]
                  | JsonArray [] \<Rightarrow>
                      Inr [(js ''query'', JStr query),
                           (js ''found'', JBool False),
                           (js ''message'', JStr (js ''Could not find location information for ''
                              @ [0x22] @ query @ [0x22] @ js ''.''))]
                  | JsonArray (result # _) \<Rightarrow>
                      Inr [(js ''query'', JStr query),
                           (js ''found'', JBool True),
                           (js ''display_name'', JStr (display_name result)),
                           (js ''latitude'', JNum (parseFloat (lat result))),
                           (js ''longitude'', JNum (parseFloat (lon result))),
                           (js ''address_details'', JDict (address result)),
                           (js ''osm_type'', JStr (osm_type result)),
                           (js ''osm_id'', JNum (osm_id result)),
                           (js ''class'', optional (class' result)),
                           (js ''type'', optional (type' result))])))"

text \<open>
  \<^verbatim>\<open>queryOpenStreetMap({ query })\<close>. The result pairs the requests handed to \<^verbatim>\<open>fetch\<close>,
  in order, with the outcome: \<open>Inr\<close> the object the promise resolves with, \<open>Inl\<close> a value
  thrown out of the function (\<^verbatim>\<open>encodeURIComponent\<close> stands before the \<^verbatim>\<open>try\<close>).
\<close>

definition queryOpenStreetMap ::
  "(jsstring \<Rightarrow> 'n) \<Rightarrow> (request \<Rightarrow> thrown + 'n response) \<Rightarrow> jsstring
     \<Rightarrow> request list \<times> (thrown + 'n envelope)" where
  "queryOpenStreetMap parseFloat fetch query =
     (if query = [] \<or> length (trim query) = 0 then
        ([], Inr [(js ''error'', JStr (js ''Query parameter cannot be empty.''))])
      else
        (case encodeURIComponent query of
           Inl e \<Rightarrow> ([], Inl e)
         | Inr encodedQuery \<Rightarrow>
             (let apiUrl = js ''https://nominatim.openstreetmap.org/search?q='' @ encodedQuery
                             @ js ''&format=json&limit=1'';
                  req = \<lparr>url = apiUrl,
                         headers = [(js ''User-Agent'',
                                     js ''MCP-Server-OSM-Tool/1.0 (contact@example.com)'')]\<rparr>
              in ([req],
                  (case tryBlock parseFloat query (fetch req) of
                     Inr result \<Rightarrow> Inr result
                   | Inl error \<Rightarrow>
                       Inr [(js ''query'', JStr query),
                            (js ''found'', JBool False),
                            (js ''error'', JStr (js ''Failed to query OpenStreetMap: ''
                               @ errorMessage error))])))))"

section \<open>The command processor and its tool: server.ts, lines 55 to 77\<close>

text \<open>
  A Zod schema as far as the source builds one: \<^verbatim>\<open>z.string().describe(...)\<close>. Zod's
  string schema accepts every value whose \<^verbatim>\<open>typeof\<close> is \<^verbatim>\<open>"string"\<close>; a length bound
  would be a further method call (\<^verbatim>\<open>.min(1)\<close>), which the source does not make. A raw
  shape is an object of such schemas, every key of which is required.
\<close>

datatype zod = ZodString "jsstring option"

fun zodAccepts :: "zod \<Rightarrow> 'n jsvalue \<Rightarrow> bool" where
  "zodAccepts (ZodString description) (JStr s) = True"
| "zodAccepts (ZodString description) v = False"

definition shapeAccepts :: "(jsstring \<times> zod) list \<Rightarrow> (jsstring \<times> 'n jsvalue) list \<Rightarrow> bool" where
  "shapeAccepts shape args =
     list_all (\<lambda>(key, schema).
        case map_of args key of None \<Rightarrow> False | Some v \<Rightarrow> zodAccepts schema v) shape"

record content =
  content_type :: jsstring
  content_text :: jsstring

text \<open>
  The callback registered for the tool. \<^verbatim>\<open>JSON.stringify\<close> is a parameter; it does not
  throw on the objects \<open>queryOpenStreetMap\<close> returns. The callback has no \<^verbatim>\<open>try\<close>
  of its own, so what \<open>queryOpenStreetMap\<close> throws leaves the callback as well.
\<close>

definition toolCallback ::
  "('n envelope \<Rightarrow> jsstring) \<Rightarrow> (jsstring \<Rightarrow> 'n) \<Rightarrow> (request \<Rightarrow> thrown + 'n response) \<Rightarrow> jsstring
     \<Rightarrow> request list \<times> (thrown + content list)" where
  "toolCallback stringify parseFloat fetch query =
     (case queryOpenStreetMap parseFloat fetch query of
        (calls, Inl e) \<Rightarrow> (calls, Inl e)
      | (calls, Inr result) \<Rightarrow>
          (calls, Inr [\<lparr>content_type = js ''text'', content_text = stringify result\<rparr>]))"

record 'cb registeredTool =
  toolName :: jsstring
  paramsSchema :: "(jsstring \<times> zod) list"
  callback :: 'cb

record 'cb McpServer =
  serverName :: jsstring
  serverVersion :: jsstring
  registeredTools :: "'cb registeredTool list"

definition newMcpServer :: "jsstring \<Rightarrow> jsstring \<Rightarrow> 'cb McpServer" where
  "newMcpServer n v = \<lparr>serverName = n, serverVersion = v, registeredTools = []\<rparr>"

definition tool :: "'cb McpServer \<Rightarrow> jsstring \<Rightarrow> (jsstring \<times> zod) list \<Rightarrow> 'cb \<Rightarrow> 'cb McpServer" where
  "tool server n shape cb =
     server\<lparr>registeredTools :=
       registeredTools server @ [\<lparr>toolName = n, paramsSchema = shape, callback = cb\<rparr>]\<rparr>"

section \<open>The session registry: server.ts, line 18\<close>

text \<open>
  \<^verbatim>\<open>const transports: { [sessionId: string]: SSEServerTransport } = {}\<close> is a plain object.
  Its own properties are the registry, a map from session ids to transports. A read
  \<^verbatim>\<open>transports[key]\<close> of a key that is no own property goes on to \<^verbatim>\<open>Object.prototype\<close>,
  whose members are functions (and, for \<^verbatim>\<open>__proto__\<close>, the prototype object): truthy values
  that have no \<^verbatim>\<open>handleMessage\<close>.
\<close>

record SSEServerTransport =
  endpoint :: jsstring
  sessionId :: jsstring

type_synonym registry = "jsstring \<rightharpoonup> SSEServerTransport"

definition objectPrototypeNames :: "jsstring list" where
  "objectPrototypeNames =
     [js ''constructor'', js ''__proto__'', js ''hasOwnProperty'', js ''isPrototypeOf'',
      js ''propertyIsEnumerable'', js ''toLocaleString'', js ''toString'', js ''valueOf'',
      js ''__defineGetter__'', js ''__defineSetter__'', js ''__lookupGetter__'',
      js ''__lookupSetter__'']"

datatype property = Undefined | Own SSEServerTransport | Inherited

definition getProperty :: "registry \<Rightarrow> jsstring \<Rightarrow> property" where
  "getProperty obj key =
     (case obj key of
        Some t \<Rightarrow> Own t
      | None \<Rightarrow> if key \<in> set objectPrototypeNames then Inherited else Undefined)"

text \<open>
  The state of the process that the handlers share: the registry, and the session ids of
  the connections on whose request the \<^verbatim>\<open>'close'\<close> listener of line 109 stands and has yet
  to run. A request emits \<^verbatim>\<open>'close'\<close> once; a listener put on it after that never runs.
\<close>

record server_state =
  transports :: registry
  closeListeners :: "jsstring set"

definition initial :: server_state where
  "initial = \<lparr>transports = Map.empty, closeListeners = {}\<rparr>"

section \<open>GET /sse: server.ts, lines 44 to 115\<close>

text \<open>
  What one run of the handler leaves behind: the shared state, the headers set on the
  response, the command processor and the transport it built, and whether the response
  has ended.
\<close>

record 'cb sse_result =
  state :: server_state
  res_headers :: "(jsstring \<times> jsstring) list"
  server :: "'cb McpServer"
  transport :: SSEServerTransport
  res_ended :: bool

text \<open>
  The handler. The first three parameters are the collaborators of the tool's callback,
  the arrow function of lines 68 to 76, which is \<open>toolCallback\<close> of them. The parameters
  after the state are what the runtime decides: the session id the new transport mints
  (\<^verbatim>\<open>randomUUID()\<close>: 36 characters of hexadecimal digits and hyphens, so never the name of
  a member of \<^verbatim>\<open>Object.prototype\<close>), the outcome of \<^verbatim>\<open>await server.connect(transport)\<close>,
  \<^verbatim>\<open>res.writableEnded\<close> as the \<^verbatim>\<open>catch\<close> block reads it, and whether the request has
  already emitted its \<^verbatim>\<open>'close'\<close> when line 109 is reached. The last happens when the request
  came with a body: \<^verbatim>\<open>express.json()\<close> (line 29) reads it to its end before the handler
  runs, the request emits \<^verbatim>\<open>'close'\<close> once it is read, and the listener is put on it only
  after the \<^verbatim>\<open>await\<close>.
\<close>

definition sse_handler ::
  "('n envelope \<Rightarrow> jsstring) \<Rightarrow> (jsstring \<Rightarrow> 'n) \<Rightarrow> (request \<Rightarrow> thrown + 'n response)
     \<Rightarrow> server_state \<Rightarrow> jsstring \<Rightarrow> (thrown + unit) \<Rightarrow> bool \<Rightarrow> bool
     \<Rightarrow> (jsstring \<Rightarrow> request list \<times> (thrown + content list)) sse_result" where
  "sse_handler stringify parseFloat fetch s mintedId connected writableEnded requestClosed =
     (let hs = [(js ''Content-Type'', js ''text/event-stream''),
                (js ''Cache-Control'', js ''no-cache''),
                (js ''Connection'', js ''keep-alive'')];
          srv = tool (newMcpServer (js ''openstreetmap-mcp-server'') (js ''1.0.0''))
                  (js ''query_openstreetmap'')
                  [(js ''query'',
                    ZodString (Some (js ''The place name, address, or landmark to search for.'')))]
                  (toolCallback stringify parseFloat fetch);
          tr = \<lparr>endpoint = js ''/messages'', sessionId = mintedId\<rparr>;
          s1 = s\<lparr>transports := (transports s)(sessionId tr \<mapsto> tr)\<rparr>
      in case connected of
           Inl error \<Rightarrow>
             \<lparr>state = s1, res_headers = hs, server = srv, transport = tr,
              res_ended = (if \<not> writableEnded then True else writableEnded)\<rparr>
         | Inr u \<Rightarrow>
             \<lparr>state = (if requestClosed then s1
                       else s1\<lparr>closeListeners := insert (sessionId tr) (closeListeners s1)\<rparr>),
              res_headers = hs, server = srv, transport = tr, res_ended = False\<rparr>)"

text \<open>
  The listener of lines 109 to 114, \<^verbatim>\<open>delete transports[transport.sessionId]\<close>, and the
  close of the connection of a session: its request emits \<^verbatim>\<open>'close'\<close> unless it already
  has, which runs the listener if one stands on it. Where the handshake failed no listener
  was registered, and where the request had emitted \<^verbatim>\<open>'close'\<close> before line 109 the listener
  came too late: in both cases the close of the connection runs nothing.
\<close>

definition closeListener :: "server_state \<Rightarrow> jsstring \<Rightarrow> server_state" where
  "closeListener s sid = s\<lparr>transports := (transports s)(sid := None)\<rparr>"

definition emitClose :: "server_state \<Rightarrow> jsstring \<Rightarrow> server_state" where
  "emitClose s sid =
     (if sid \<in> closeListeners s
      then (closeListener s sid)\<lparr>closeListeners := closeListeners s - {sid}\<rparr>
      else s)"

section \<open>POST /messages: server.ts, lines 118 to 134\<close>

record http_response =
  code :: nat
  sent :: jsstring

text \<open>
  \<^verbatim>\<open>transport.handleMessage\<close> of the SDK is a parameter: it completes or throws. For an
  inherited member, \<^verbatim>\<open>transport.handleMessage\<close> is \<^verbatim>\<open>undefined\<close> and the call throws a
  TypeError inside the \<^verbatim>\<open>try\<close>. The sessionId of the query string is read as the
  property key it is converted to.
\<close>

definition messages_handler ::
  "(SSEServerTransport \<Rightarrow> 'b \<Rightarrow> thrown + unit) \<Rightarrow> server_state \<Rightarrow> jsstring \<Rightarrow> 'b
     \<Rightarrow> http_response \<times> server_state" where
  "messages_handler handleMessage s sid body =
     (case getProperty (transports s) sid of
        Own tr \<Rightarrow>
          (case handleMessage tr body of
             Inr u \<Rightarrow> (\<lparr>code = 200, sent = js ''OK''\<rparr>, s)
           | Inl error \<Rightarrow> (\<lparr>code = 500, sent = js ''Error processing message''\<rparr>, s))
      | Inherited \<Rightarrow> (\<lparr>code = 500, sent = js ''Error processing message''\<rparr>, s)
      | Undefined \<Rightarrow> (\<lparr>code = 404, sent = js ''Session not found or inactive''\<rparr>, s))"

definition health_handler :: "server_state \<Rightarrow> http_response \<times> server_state" where
  "health_handler s = (\<lparr>code = 200, sent = js ''OK''\<rparr>, s)"

section \<open>Runs of the server\<close>

text \<open>
  The event loop runs one handler at a time. An event is a request or the \<^verbatim>\<open>'close'\<close> of
  a connection, together with what the runtime decides during it. A handler is one step:
  the handshake that the /sse handler awaits writes the head and the first event of the
  stream and then resolves, without waiting for the network. The one event that can fall
  between the registration of the transport and that of the \<^verbatim>\<open>'close'\<close> listener, the
  \<^verbatim>\<open>'close'\<close> of a request whose body was read, is the last argument of \<open>GetSse\<close>.
\<close>

datatype 'b event =
    GetSse jsstring "thrown + unit" bool bool
  | ConnectionClose jsstring
  | PostMessages jsstring 'b
  | GetHealth

fun step ::
  "('n envelope \<Rightarrow> jsstring) \<Rightarrow> (jsstring \<Rightarrow> 'n) \<Rightarrow> (request \<Rightarrow> thrown + 'n response)
     \<Rightarrow> (SSEServerTransport \<Rightarrow> 'b \<Rightarrow> thrown + unit) \<Rightarrow> server_state \<Rightarrow> 'b event \<Rightarrow> server_state" where
  "step stringify parseFloat fetch hm s (GetSse sid connected writableEnded requestClosed) =
     state (sse_handler stringify parseFloat fetch s sid connected writableEnded requestClosed)"
| "step stringify parseFloat fetch hm s (ConnectionClose sid) = emitClose s sid"
| "step stringify parseFloat fetch hm s (PostMessages sid body) = snd (messages_handler hm s sid body)"
| "step stringify parseFloat fetch hm s GetHealth = snd (health_handler s)"

fun run ::
  "('n envelope \<Rightarrow> jsstring) \<Rightarrow> (jsstring \<Rightarrow> 'n) \<Rightarrow> (request \<Rightarrow> thrown + 'n response)
     \<Rightarrow> (SSEServerTransport \<Rightarrow> 'b \<Rightarrow> thrown + unit) \<Rightarrow> server_state \<Rightarrow> 'b event list
     \<Rightarrow> server_state" where
  "run stringify parseFloat fetch hm s [] = s"
| "run stringify parseFloat fetch hm s (ev # evs) =
     run stringify parseFloat fetch hm (step stringify parseFloat fetch hm s ev) evs"

fun mints :: "jsstring \<Rightarrow> 'b event \<Rightarrow> bool" where
  "mints sid (GetSse sid' connected writableEnded requestClosed) = (sid' = sid)"
| "mints sid ev = False"

section \<open>Concrete inputs\<close>

text \<open>
  Inputs at which the theorems below are instantiated. Numbers are written here as their
  decimal text, so \<^verbatim>\<open>parseFloat\<close> is the identity on them.
\<close>

definition tourEiffel :: "jsstring NominatimResult" where
  "tourEiffel =
     \<lparr>place_id = js ''88715626'', licence = js ''ODbL 1.0'', osm_type = js ''way'',
      osm_id = js ''5013364'', lat = js ''48.8582599'', lon = js ''2.2945006'',
      display_name = js ''Tour Eiffel, Paris, France'',
      address = [(js ''city'', js ''Paris''), (js ''country'', js ''France'')],
      boundingbox = [js ''48.8574753'', js ''48.8590453'', js ''2.2933084'', js ''2.2956897''],
      importance = Some (js ''0.64''), class' = Some (js ''man_made''), type' = Some (js ''tower'')\<rparr>"

definition parisTexas :: "jsstring NominatimResult" where
  "parisTexas =
     \<lparr>place_id = js ''1'', licence = js ''ODbL 1.0'', osm_type = js ''relation'',
      osm_id = js ''115357'', lat = js ''33.6617962'', lon = js ''-95.555513'',
      display_name = js ''Paris, Texas'', address = [], boundingbox = [],
      importance = None, class' = None, type' = None\<rparr>"

definition upstreamReplies ::
  "nat \<Rightarrow> jsstring \<Rightarrow> (thrown + jsstring json_body) \<Rightarrow> request \<Rightarrow> thrown + jsstring response" where
  "upstreamReplies st stText body req =
     Inr \<lparr>status = st, statusText = stText, body_text = Inr [], body_json = body\<rparr>"

definition upstreamUnreachable :: "request \<Rightarrow> thrown + jsstring response" where
  "upstreamUnreachable req = Inl (ErrorObj (js ''connect ECONNREFUSED''))"

definition parisRequest :: request where
  "parisRequest =
     \<lparr>url = js ''https://nominatim.openstreetmap.org/search?q=Paris&format=json&limit=1'',
      headers = [(js ''User-Agent'', js ''MCP-Server-OSM-Tool/1.0 (contact@example.com)'')]\<rparr>"

text \<open>
  \<^verbatim>\<open>JSON.stringify\<close> is a parameter of the model; at the concrete inputs this function
  stands for it (the property names, each followed by a semicolon).
\<close>

definition sampleStringify :: "jsstring envelope \<Rightarrow> jsstring" where
  "sampleStringify env = concat (map (\<lambda>(k, v). k @ js '';'') env)"

definition sampleSessionId :: jsstring where
  "sampleSessionId = js ''3b241101-e2bb-4255-8caf-4136c566a962''"

text \<open>The state after one connection to /sse on the fresh server, its handshake succeeded.\<close>

definition established :: server_state where
  "established =
     state (sse_handler sampleStringify (\<lambda>s. s) upstreamUnreachable initial sampleSessionId
              (Inr ()) False False)"

section \<open>Blank queries\<close>

lemma trim_Nil_iff: "trim q = [] \<longleftrightarrow> (\<forall>c\<in>set q. isWhiteSpace c)"
proof
  assume "trim q = []"
  then have "dropWhile isWhiteSpace (rev (dropWhile isWhiteSpace q)) = []"
    by (simp add: trim_def)
  then have "\<forall>c\<in>set (dropWhile isWhiteSpace q). isWhiteSpace c"
    by simp
  then have "dropWhile isWhiteSpace q = []"
    using hd_dropWhile [of isWhiteSpace q] hd_in_set [of "dropWhile isWhiteSpace q"] by blast
  then show "\<forall>c\<in>set q. isWhiteSpace c"
    by simp
next
  assume "\<forall>c\<in>set q. isWhiteSpace c"
  then have "dropWhile isWhiteSpace q = []"
    by simp
  then show "trim q = []"
    by (simp add: trim_def del: dropWhile_eq_Nil_conv)
qed

lemma blank_iff: "(q = [] \<or> length (trim q) = 0) \<longleftrightarrow> (\<forall>c\<in>set q. isWhiteSpace c)"
  using trim_Nil_iff [of q] by auto

text \<open>
  C4, as the code has it. For every query that is empty or consists of white space only,
  \<open>queryOpenStreetMap\<close> returns the object \<^verbatim>\<open>{error: "Query parameter cannot be empty."}\<close>,
  which has the \<^verbatim>\<open>error\<close> property and no other (no \<^verbatim>\<open>found\<close>, no \<^verbatim>\<open>query\<close>), and
  hands no request to \<^verbatim>\<open>fetch\<close>.
\<close>

theorem blank_query_short_circuits:
  assumes "\<forall>c\<in>set query. isWhiteSpace c"
  shows "queryOpenStreetMap parseFloat fetch query =
           ([], Inr [(js ''error'', JStr (js ''Query parameter cannot be empty.''))])"
proof -
  from assms have "query = [] \<or> length (trim query) = 0"
    by (simp only: blank_iff)
  then show ?thesis
    unfolding queryOpenStreetMap_def by (simp only: if_True)
qed

theorem blank_query_short_circuits_witness:
  "queryOpenStreetMap (\<lambda>s. s) upstreamUnreachable [0x20, 0x09, 0xA0, 0x3000] =
     ([], Inr [(js ''error'', JStr (js ''Query parameter cannot be empty.''))])"
  using blank_query_short_circuits [of "[0x20, 0x09, 0xA0, 0x3000]" "\<lambda>s. s" upstreamUnreachable]
  by (simp add: isWhiteSpace_def)

text \<open>
  C4 as stated asks for \<^verbatim>\<open>found: false\<close> in that object. At the empty query the function
  returns an object that has no \<^verbatim>\<open>found\<close> property.
\<close>

theorem blank_query_has_no_found_field:
  "\<exists>env. snd (queryOpenStreetMap (\<lambda>s. s) upstreamUnreachable []) = Inr env
         \<and> map_of env (js ''found'') = None"
  by (simp add: queryOpenStreetMap_def js_def)

section \<open>Queries that reach the upstream\<close>

text \<open>
  When the function has handed a request to \<^verbatim>\<open>fetch\<close>, its result is what the \<^verbatim>\<open>try\<close>
  block returns, or the object the \<^verbatim>\<open>catch\<close> block builds from what was thrown.
\<close>

lemma query_sent:
  assumes "fst (queryOpenStreetMap parseFloat fetch query) = [req]"
  shows "snd (queryOpenStreetMap parseFloat fetch query) =
           (case tryBlock parseFloat query (fetch req) of
              Inr result \<Rightarrow> Inr result
            | Inl error \<Rightarrow>
                Inr [(js ''query'', JStr query),
                     (js ''found'', JBool False),
                     (js ''error'', JStr (js ''Failed to query OpenStreetMap: ''
                        @ errorMessage error))])"
  using assms unfolding queryOpenStreetMap_def
  by (auto simp: Let_def split: if_splits sum.splits)

lemmas encode_defs = uriUnescaped_def isTrailSurrogate_def isLeadSurrogate_def escaped_def
  utf8_def percentEscape_def hexDigit_def

lemma paris_sent: "fst (queryOpenStreetMap parseFloat fetch (js ''Paris'')) = [parisRequest]"
  by (simp add: queryOpenStreetMap_def parisRequest_def js_def trim_def isWhiteSpace_def
      encode_defs Let_def)

text \<open>
  C5, as the code has it. Whenever the collaborator fails after the request was sent (the
  \<^verbatim>\<open>fetch\<close> rejects with \<open>e\<close>; or the status is outside 200 to 299, where \<open>e\<close> is what
  reading the body threw or else the Error "Nominatim API request failed with status S: T";
  or the body does not parse and \<^verbatim>\<open>response.json()\<close> rejects with \<open>e\<close>), the function
  returns \<^verbatim>\<open>{query, found: false, error: "Failed to query OpenStreetMap: " + message}\<close>, where
  the message is that of \<open>e\<close> (or "An unknown error occurred" when \<open>e\<close> is no Error), and the
  tool callback returns its text block of that object: nothing is thrown. This object has
  the properties \<^verbatim>\<open>query\<close> and \<^verbatim>\<open>found\<close>, which the object returned for a blank query lacks.
\<close>

theorem collaborator_failure_is_caught:
  assumes sent: "fst (queryOpenStreetMap parseFloat fetch query) = [req]"
    and failure:
      "fetch req = Inl e
       \<or> (\<exists>r. fetch req = Inr r \<and> \<not> (200 \<le> status r \<and> status r < 300) \<and> body_text r = Inl e)
       \<or> (\<exists>r t. fetch req = Inr r \<and> \<not> (200 \<le> status r \<and> status r < 300) \<and> body_text r = Inr t
             \<and> e = ErrorObj (js ''Nominatim API request failed with status ''
                     @ decimal (status r) @ js '': '' @ statusText r))
       \<or> (\<exists>r. fetch req = Inr r \<and> 200 \<le> status r \<and> status r < 300 \<and> body_json r = Inl e)"
  shows "snd (queryOpenStreetMap parseFloat fetch query) =
           Inr [(js ''query'', JStr query),
                (js ''found'', JBool False),
                (js ''error'', JStr (js ''Failed to query OpenStreetMap: '' @ errorMessage e))]
       \<and> snd (toolCallback stringify parseFloat fetch query) =
           Inr [\<lparr>content_type = js ''text'',
                 content_text = stringify
                   [(js ''query'', JStr query),
                    (js ''found'', JBool False),
                    (js ''error'', JStr (js ''Failed to query OpenStreetMap: '' @ errorMessage e))]\<rparr>]"
proof -
  from failure have thrown: "tryBlock parseFloat query (fetch req) = Inl e"
    by (auto simp: tryBlock_def ok_def)
  have result: "snd (queryOpenStreetMap parseFloat fetch query) =
           Inr [(js ''query'', JStr query),
                (js ''found'', JBool False),
                (js ''error'', JStr (js ''Failed to query OpenStreetMap: '' @ errorMessage e))]"
    by (simp add: query_sent [OF sent] thrown)
  then show ?thesis
    by (cases "queryOpenStreetMap parseFloat fetch query") (simp add: toolCallback_def)
qed

theorem collaborator_failure_is_caught_witness:
  "snd (queryOpenStreetMap (\<lambda>s. s) upstreamUnreachable (js ''Paris'')) =
     Inr [(js ''query'', JStr (js ''Paris'')),
          (js ''found'', JBool False),
          (js ''error'', JStr (js ''Failed to query OpenStreetMap: connect ECONNREFUSED''))]
   \<and> snd (queryOpenStreetMap (\<lambda>s. s)
            (upstreamReplies 503 (js ''Service Unavailable'') (Inr JsonNull)) (js ''Paris'')) =
     Inr [(js ''query'', JStr (js ''Paris'')),
          (js ''found'', JBool False),
          (js ''error'', JStr (js ''Failed to query OpenStreetMap: Nominatim API request failed with status 503: Service Unavailable''))]
   \<and> snd (queryOpenStreetMap (\<lambda>s. s)
            (upstreamReplies 200 (js ''OK'')
               (Inl (ErrorObj (js ''Unexpected token < in JSON at position 0''))))
            (js ''Paris'')) =
     Inr [(js ''query'', JStr (js ''Paris'')),
          (js ''found'', JBool False),
          (js ''error'', JStr (js ''Failed to query OpenStreetMap: Unexpected token < in JSON at position 0''))]"
proof -
  have a: "upstreamUnreachable parisRequest = Inl (ErrorObj (js ''connect ECONNREFUSED''))"
    by (simp add: upstreamUnreachable_def)
  have b: "\<exists>r t. upstreamReplies 503 (js ''Service Unavailable'') (Inr JsonNull) parisRequest = Inr r
             \<and> \<not> (200 \<le> status r \<and> status r < 300) \<and> body_text r = Inr t
             \<and> ErrorObj (js ''Nominatim API request failed with status 503: Service Unavailable'')
                 = ErrorObj (js ''Nominatim API request failed with status ''
                     @ decimal (status r) @ js '': '' @ statusText r)"
    by (simp add: upstreamReplies_def js_def)
  have c: "\<exists>r. upstreamReplies 200 (js ''OK'')
                  (Inl (ErrorObj (js ''Unexpected token < in JSON at position 0''))) parisRequest = Inr r
             \<and> 200 \<le> status r \<and> status r < 300
             \<and> body_json r = Inl (ErrorObj (js ''Unexpected token < in JSON at position 0''))"
    by (simp add: upstreamReplies_def)
  show ?thesis
    using
      collaborator_failure_is_caught [OF paris_sent, of upstreamUnreachable
        "ErrorObj (js ''connect ECONNREFUSED'')"] a
      collaborator_failure_is_caught [OF paris_sent,
        of "upstreamReplies 503 (js ''Service Unavailable'') (Inr JsonNull)"
        "ErrorObj (js ''Nominatim API request failed with status 503: Service Unavailable'')"] b
      collaborator_failure_is_caught [OF paris_sent,
        of "upstreamReplies 200 (js ''OK'')
              (Inl (ErrorObj (js ''Unexpected token < in JSON at position 0'')))"
        "ErrorObj (js ''Unexpected token < in JSON at position 0'')"] c
    by (simp add: js_def)
qed

text \<open>
  C5 as stated gives the two error objects the same shape. Both calls return an object,
  and the property names differ: \<^verbatim>\<open>query, found, error\<close> after a failed \<^verbatim>\<open>fetch\<close>,
  \<^verbatim>\<open>error\<close> alone for the empty query.
\<close>

theorem failure_envelopes_differ_in_shape:
  "\<exists>failed blank.
      snd (queryOpenStreetMap (\<lambda>s. s) upstreamUnreachable (js ''Paris'')) = Inr failed
    \<and> snd (queryOpenStreetMap (\<lambda>s. s) upstreamUnreachable []) = Inr blank
    \<and> map fst failed = [js ''query'', js ''found'', js ''error'']
    \<and> map fst blank = [js ''error'']
    \<and> map fst failed \<noteq> map fst blank"
proof -
  have "snd (queryOpenStreetMap (\<lambda>s. s) upstreamUnreachable (js ''Paris'')) =
          (case tryBlock (\<lambda>s. s) (js ''Paris'') (upstreamUnreachable parisRequest) of
              Inr result \<Rightarrow> Inr result
            | Inl error \<Rightarrow>
                Inr [(js ''query'', JStr (js ''Paris'')),
                     (js ''found'', JBool False),
                     (js ''error'', JStr (js ''Failed to query OpenStreetMap: ''
                        @ errorMessage error))])"
    by (rule query_sent [OF paris_sent])
  then show ?thesis
    by (simp add: queryOpenStreetMap_def tryBlock_def upstreamUnreachable_def)
qed

text \<open>
  The hypothesis that the request was sent matters: \<^verbatim>\<open>encodeURIComponent\<close> stands before
  the \<^verbatim>\<open>try\<close>, so for a query with a surrogate that has no partner its URIError leaves
  the function, and the callback, before any request is made.
\<close>

lemma lone_surrogate_escapes:
  "queryOpenStreetMap parseFloat fetch [0x41, 0xD83D] = ([], Inl uriError)
   \<and> toolCallback stringify parseFloat fetch [0x41, 0xD83D] = ([], Inl uriError)"
  by (simp add: toolCallback_def queryOpenStreetMap_def trim_def isWhiteSpace_def encode_defs)

text \<open>
  C7. When the request was sent and the upstream answers with a status from 200 to 299 and
  the JSON array of no results, \<open>queryOpenStreetMap\<close> returns exactly
  \<^verbatim>\<open>{query, found: false, message}\<close>, the message being
  \<^verbatim>\<open>Could not find location information for "<query>".\<close>
\<close>

theorem zero_results_envelope:
  assumes sent: "fst (queryOpenStreetMap parseFloat fetch query) = [req]"
    and replied: "fetch req = Inr r"
    and success: "200 \<le> status r \<and> status r < 300"
    and empty: "body_json r = Inr (JsonArray [])"
  shows "snd (queryOpenStreetMap parseFloat fetch query) =
           Inr [(js ''query'', JStr query),
                (js ''found'', JBool False),
                (js ''message'', JStr (js ''Could not find location information for ''
                   @ [0x22] @ query @ [0x22] @ js ''.''))]"
  by (simp add: query_sent [OF sent] tryBlock_def ok_def replied success empty)

theorem zero_results_envelope_witness:
  "snd (queryOpenStreetMap (\<lambda>s. s) (upstreamReplies 200 (js ''OK'') (Inr (JsonArray []))) (js ''Paris'')) =
     Inr [(js ''query'', JStr (js ''Paris'')),
          (js ''found'', JBool False),
          (js ''message'', JStr (js ''Could not find location information for ''
             @ [0x22] @ js ''Paris'' @ [0x22] @ js ''.''))]"
  using zero_results_envelope [OF paris_sent, of "upstreamReplies 200 (js ''OK'') (Inr (JsonArray []))"
      "\<lparr>status = 200, statusText = js ''OK'', body_text = Inr [], body_json = Inr (JsonArray [])\<rparr>"
      "\<lambda>s. s"]
  by (simp add: upstreamReplies_def)

text \<open>
  C8. When the request was sent and the upstream answers with a status from 200 to 299 and
  a JSON array of at least one result, \<open>queryOpenStreetMap\<close> returns
  \<^verbatim>\<open>{query, found: true, display_name, latitude, longitude, address_details, osm_type,
  osm_id, class, type}\<close>, taken from the first result: latitude and longitude are
  \<^verbatim>\<open>parseFloat\<close> of its \<^verbatim>\<open>lat\<close> and \<^verbatim>\<open>lon\<close> strings, address_details is its address
  mapping, and class and type are \<^verbatim>\<open>undefined\<close> where the result has none.
\<close>

theorem first_result_envelope:
  assumes sent: "fst (queryOpenStreetMap parseFloat fetch query) = [req]"
    and replied: "fetch req = Inr r"
    and success: "200 \<le> status r \<and> status r < 300"
    and results: "body_json r = Inr (JsonArray (result # later))"
  shows "snd (queryOpenStreetMap parseFloat fetch query) =
           Inr [(js ''query'', JStr query),
                (js ''found'', JBool True),
                (js ''display_name'', JStr (display_name result)),
                (js ''latitude'', JNum (parseFloat (lat result))),
                (js ''longitude'', JNum (parseFloat (lon result))),
                (js ''address_details'', JDict (address result)),
                (js ''osm_type'', JStr (osm_type result)),
                (js ''osm_id'', JNum (osm_id result)),
                (js ''class'', case class' result of None \<Rightarrow> JUndefined | Some c \<Rightarrow> JStr c),
                (js ''type'', case type' result of None \<Rightarrow> JUndefined | Some t \<Rightarrow> JStr t)]"
  by (simp add: query_sent [OF sent] tryBlock_def ok_def replied success results optional_def)

theorem first_result_envelope_witness:
  "snd (queryOpenStreetMap (\<lambda>s. s) (upstreamReplies 200 (js ''OK'') (Inr (JsonArray [tourEiffel]))) (js ''Paris'')) =
     Inr [(js ''query'', JStr (js ''Paris'')),
          (js ''found'', JBool True),
          (js ''display_name'', JStr (js ''Tour Eiffel, Paris, France'')),
          (js ''latitude'', JNum (js ''48.8582599'')),
          (js ''longitude'', JNum (js ''2.2945006'')),
          (js ''address_details'', JDict [(js ''city'', js ''Paris''), (js ''country'', js ''France'')]),
          (js ''osm_type'', JStr (js ''way'')),
          (js ''osm_id'', JNum (js ''5013364'')),
          (js ''class'', JStr (js ''man_made'')),
          (js ''type'', JStr (js ''tower''))]"
  using first_result_envelope [OF paris_sent, of "upstreamReplies 200 (js ''OK'') (Inr (JsonArray [tourEiffel]))"
      "\<lparr>status = 200, statusText = js ''OK'', body_text = Inr [], body_json = Inr (JsonArray [tourEiffel])\<rparr>"
      tourEiffel "[]" "\<lambda>s. s"]
  by (simp add: upstreamReplies_def tourEiffel_def)

text \<open>
  C10. When the upstream answers with an array of several results, the object returned is
  the success object built from the first element, \<^verbatim>\<open>data[0]\<close>, whatever the later
  elements are: it is the object returned had the array held the first element alone.
\<close>

theorem later_results_ignored:
  assumes sent: "fst (queryOpenStreetMap parseFloat fetch query) = [req]"
    and replied: "fetch req = Inr r"
    and success: "200 \<le> status r \<and> status r < 300"
    and results: "body_json r = Inr (JsonArray (result # later))"
  shows "snd (queryOpenStreetMap parseFloat fetch query) =
           Inr [(js ''query'', JStr query),
                (js ''found'', JBool True),
                (js ''display_name'', JStr (display_name result)),
                (js ''latitude'', JNum (parseFloat (lat result))),
                (js ''longitude'', JNum (parseFloat (lon result))),
                (js ''address_details'', JDict (address result)),
                (js ''osm_type'', JStr (osm_type result)),
                (js ''osm_id'', JNum (osm_id result)),
                (js ''class'', case class' result of None \<Rightarrow> JUndefined | Some c \<Rightarrow> JStr c),
                (js ''type'', case type' result of None \<Rightarrow> JUndefined | Some t \<Rightarrow> JStr t)]
       \<and> snd (queryOpenStreetMap parseFloat fetch query) =
           snd (queryOpenStreetMap parseFloat
                  (\<lambda>q. Inr (r\<lparr>body_json := Inr (JsonArray [result])\<rparr>)) query)"
proof -
  have sent': "fst (queryOpenStreetMap parseFloat
                      (\<lambda>q. Inr (r\<lparr>body_json := Inr (JsonArray [result])\<rparr>)) query) = [req]"
    using sent unfolding queryOpenStreetMap_def
    by (auto simp: Let_def split: if_splits sum.splits)
  have first: "tryBlock parseFloat query (fetch req) =
           Inr [(js ''query'', JStr query),
                (js ''found'', JBool True),
                (js ''display_name'', JStr (display_name result)),
                (js ''latitude'', JNum (parseFloat (lat result))),
                (js ''longitude'', JNum (parseFloat (lon result))),
                (js ''address_details'', JDict (address result)),
                (js ''osm_type'', JStr (osm_type result)),
                (js ''osm_id'', JNum (osm_id result)),
                (js ''class'', case class' result of None \<Rightarrow> JUndefined | Some c \<Rightarrow> JStr c),
                (js ''type'', case type' result of None \<Rightarrow> JUndefined | Some t \<Rightarrow> JStr t)]"
    by (simp add: tryBlock_def ok_def replied success results optional_def)
  have alone: "tryBlock parseFloat query (Inr (r\<lparr>body_json := Inr (JsonArray [result])\<rparr>)) =
                 tryBlock parseFloat query (fetch req)"
    by (simp add: tryBlock_def ok_def replied success results)
  show ?thesis
    by (simp add: query_sent [OF sent] query_sent [OF sent'] alone first)
qed

theorem later_results_ignored_witness:
  "snd (queryOpenStreetMap (\<lambda>s. s)
          (upstreamReplies 200 (js ''OK'') (Inr (JsonArray [tourEiffel, parisTexas]))) (js ''Paris'')) =
     Inr [(js ''query'', JStr (js ''Paris'')),
          (js ''found'', JBool True),
          (js ''display_name'', JStr (js ''Tour Eiffel, Paris, France'')),
          (js ''latitude'', JNum (js ''48.8582599'')),
          (js ''longitude'', JNum (js ''2.2945006'')),
          (js ''address_details'', JDict [(js ''city'', js ''Paris''), (js ''country'', js ''France'')]),
          (js ''osm_type'', JStr (js ''way'')),
          (js ''osm_id'', JNum (js ''5013364'')),
          (js ''class'', JStr (js ''man_made'')),
          (js ''type'', JStr (js ''tower''))]
   \<and> snd (queryOpenStreetMap (\<lambda>s. s)
          (upstreamReplies 200 (js ''OK'') (Inr (JsonArray [tourEiffel, parisTexas]))) (js ''Paris'')) =
     snd (queryOpenStreetMap (\<lambda>s. s)
          (upstreamReplies 200 (js ''OK'') (Inr (JsonArray [tourEiffel]))) (js ''Paris''))"
proof -
  let ?both = "upstreamReplies 200 (js ''OK'') (Inr (JsonArray [tourEiffel, parisTexas]))"
  let ?r = "\<lparr>status = 200, statusText = js ''OK'', body_text = Inr [],
             body_json = Inr (JsonArray [tourEiffel, parisTexas])\<rparr> :: jsstring response"
  have alone: "(\<lambda>q. Inr (?r\<lparr>body_json := Inr (JsonArray [tourEiffel])\<rparr>))
        = upstreamReplies 200 (js ''OK'') (Inr (JsonArray [tourEiffel]))"
    by (rule ext) (simp add: upstreamReplies_def)
  have replied: "?both parisRequest = Inr ?r"
    by (simp add: upstreamReplies_def)
  have success: "200 \<le> status ?r \<and> status ?r < 300"
    by simp
  have results: "body_json ?r = Inr (JsonArray (tourEiffel # [parisTexas]))"
    by simp
  note inst = later_results_ignored [where parseFloat = "\<lambda>s. s" and fetch = ?both
      and query = "js ''Paris''" and req = parisRequest and r = ?r and result = tourEiffel
      and later = "[parisTexas]", OF paris_sent replied success results]
  have first: "snd (queryOpenStreetMap (\<lambda>s. s) ?both (js ''Paris'')) =
     Inr [(js ''query'', JStr (js ''Paris'')),
          (js ''found'', JBool True),
          (js ''display_name'', JStr (js ''Tour Eiffel, Paris, France'')),
          (js ''latitude'', JNum (js ''48.8582599'')),
          (js ''longitude'', JNum (js ''2.2945006'')),
          (js ''address_details'', JDict [(js ''city'', js ''Paris''), (js ''country'', js ''France'')]),
          (js ''osm_type'', JStr (js ''way'')),
          (js ''osm_id'', JNum (js ''5013364'')),
          (js ''class'', JStr (js ''man_made'')),
          (js ''type'', JStr (js ''tower''))]"
    using conjunct1 [OF inst] by (simp add: tourEiffel_def)
  have same: "snd (queryOpenStreetMap (\<lambda>s. s) ?both (js ''Paris'')) =
     snd (queryOpenStreetMap (\<lambda>s. s)
          (upstreamReplies 200 (js ''OK'') (Inr (JsonArray [tourEiffel]))) (js ''Paris''))"
    using conjunct2 [OF inst] unfolding alone .
  show ?thesis
    using first same by (rule conjI)
qed

section \<open>The /sse handler and the registry\<close>

text \<open>
  Every run of the handler registers the transport under the minted id before the
  handshake, and the entry is there when the handler is done, whatever the handshake did.
  The \<^verbatim>\<open>'close'\<close> listener stands afterwards only if the handshake succeeded and the request
  had not emitted \<^verbatim>\<open>'close'\<close> before. The sample id is no name of a member of
  \<^verbatim>\<open>Object.prototype\<close>.
\<close>

lemma sse_registers_transport:
  "transports (state (sse_handler stringify parseFloat fetch s sid connected w c)) sid
     = Some \<lparr>endpoint = js ''/messages'', sessionId = sid\<rparr>"
  by (cases connected) (simp_all add: sse_handler_def Let_def)

lemma sse_connected_listens:
  "sid \<in> closeListeners (state (sse_handler stringify parseFloat fetch s sid (Inr u) w False))"
  by (simp add: sse_handler_def Let_def)

lemma sse_listeners_otherwise:
  "closeListeners (state (sse_handler stringify parseFloat fetch s sid (Inl e) w c)) = closeListeners s
   \<and> closeListeners (state (sse_handler stringify parseFloat fetch s sid (Inr u) w True)) = closeListeners s"
  by (simp add: sse_handler_def Let_def)

lemma sample_not_inherited: "sampleSessionId \<notin> set objectPrototypeNames"
  by (simp add: sampleSessionId_def objectPrototypeNames_def js_def)

lemma established_registered:
  "transports established sampleSessionId
     = Some \<lparr>endpoint = js ''/messages'', sessionId = sampleSessionId\<rparr>
   \<and> sampleSessionId \<in> closeListeners established"
  by (simp add: established_def sse_registers_transport sse_connected_listens)

section \<open>The message router\<close>

text \<open>The handler of POST /messages returns the state it was given, whatever happens.\<close>

lemma messages_handler_state: "snd (messages_handler hm s sid body) = s"
  by (simp add: messages_handler_def split: property.split sum.split)

text \<open>
  The three answers for a session id that is an own property of the registry, or that is
  neither one nor the name of a member of \<^verbatim>\<open>Object.prototype\<close>; and the answer for such a
  name.
\<close>

lemma post_200:
  assumes "transports s sid = Some tr" and "hm tr body = Inr u"
  shows "fst (messages_handler hm s sid body) = \<lparr>code = 200, sent = js ''OK''\<rparr>"
  using assms by (simp add: messages_handler_def getProperty_def)

lemma post_500:
  assumes "transports s sid = Some tr" and "hm tr body = Inl e"
  shows "fst (messages_handler hm s sid body) = \<lparr>code = 500, sent = js ''Error processing message''\<rparr>"
  using assms by (simp add: messages_handler_def getProperty_def)

lemma post_404:
  assumes "transports s sid = None" and "sid \<notin> set objectPrototypeNames"
  shows "fst (messages_handler hm s sid body) = \<lparr>code = 404, sent = js ''Session not found or inactive''\<rparr>"
  using assms by (simp add: messages_handler_def getProperty_def)

lemma post_inherited:
  assumes "transports s sid = None" and "sid \<in> set objectPrototypeNames"
  shows "fst (messages_handler hm s sid body) = \<lparr>code = 500, sent = js ''Error processing message''\<rparr>"
  using assms by (simp add: messages_handler_def getProperty_def)

lemma post_registered_not_404:
  assumes "transports s sid = Some tr"
  shows "code (fst (messages_handler hm s sid body)) \<noteq> 404"
  using assms by (cases "hm tr body") (simp_all add: messages_handler_def getProperty_def)

text \<open>
  C2, at the input where the code leaves it. The claim asks for 404 whenever the sessionId
  is no key of the registry. For the sessionId \<^verbatim>\<open>constructor\<close> and the empty registry the
  read \<^verbatim>\<open>transports[sessionId]\<close> finds \<^verbatim>\<open>Object.prototype.constructor\<close>, the branch of a
  found transport is taken, and the answer is 500, whatever the payload and whatever
  \<^verbatim>\<open>handleMessage\<close> would do.
\<close>

theorem inherited_name_answers_500:
  "transports initial (js ''constructor'') = None
   \<and> fst (messages_handler hm initial (js ''constructor'') body)
       = \<lparr>code = 500, sent = js ''Error processing message''\<rparr>"
proof -
  have "js ''constructor'' \<in> set objectPrototypeNames"
    by (simp add: objectPrototypeNames_def)
  then show ?thesis
    by (simp add: post_inherited initial_def)
qed

text \<open>
  C6. If \<^verbatim>\<open>transport.handleMessage\<close> throws for the transport registered under the
  sessionId, the answer is 500 "Error processing message" and the transport is still
  registered under that sessionId afterwards; and for every request, whatever its outcome,
  the handler leaves the registry as it found it.
\<close>

theorem failed_message_keeps_session:
  assumes registered: "transports s sid = Some tr"
    and throws: "handleMessage tr body = Inl e"
  shows "fst (messages_handler handleMessage s sid body)
           = \<lparr>code = 500, sent = js ''Error processing message''\<rparr>
       \<and> transports (snd (messages_handler handleMessage s sid body)) sid = Some tr
       \<and> snd (messages_handler hm' s' sid' body') = s'"
  using assms by (simp add: post_500 messages_handler_state)

theorem failed_message_keeps_session_witness:
  "fst (messages_handler (\<lambda>tr body. Inl (ErrorObj (js ''Unexpected end of JSON input'')))
         established sampleSessionId (js ''{''))
     = \<lparr>code = 500, sent = js ''Error processing message''\<rparr>
   \<and> transports (snd (messages_handler (\<lambda>tr body. Inl (ErrorObj (js ''Unexpected end of JSON input'')))
         established sampleSessionId (js ''{'')))
       sampleSessionId
     = Some \<lparr>endpoint = js ''/messages'', sessionId = sampleSessionId\<rparr>
   \<and> snd (messages_handler (\<lambda>tr body. Inr ()) initial sampleSessionId (js ''{'')) = initial"
proof -
  have r: "transports established sampleSessionId
             = Some \<lparr>endpoint = js ''/messages'', sessionId = sampleSessionId\<rparr>"
    by (simp add: established_registered)
  show ?thesis
    using r
      failed_message_keeps_session [where s = established
        and sid = sampleSessionId
        and tr = "\<lparr>endpoint = js ''/messages'', sessionId = sampleSessionId\<rparr>"
        and handleMessage = "\<lambda>tr body. Inl (ErrorObj (js ''Unexpected end of JSON input''))"
        and body = "js ''{''" and e = "ErrorObj (js ''Unexpected end of JSON input'')"
        and hm' = "\<lambda>tr body. Inr ()" and s' = initial and sid' = sampleSessionId
        and body' = "js ''{''"]
    by simp
qed

section \<open>The life of a session\<close>

text \<open>
  A session id that is absent from the registry stays absent as long as no new connection
  mints it.
\<close>

lemma step_keeps_absent:
  assumes "\<not> mints sid ev" and "transports s sid = None"
  shows "transports (step stringify parseFloat fetch hm s ev) sid = None"
  using assms
  by (cases ev)
    (auto simp: sse_handler_def Let_def emitClose_def closeListener_def messages_handler_state
      health_handler_def split: sum.split)

lemma run_keeps_absent:
  assumes "\<not> list_ex (mints sid) evs" and "transports s sid = None"
  shows "transports (run stringify parseFloat fetch hm s evs) sid = None"
  using assms
proof (induction evs arbitrary: s)
  case Nil
  then show ?case by simp
next
  case (Cons ev evs)
  from Cons.prems have "transports (step stringify parseFloat fetch hm s ev) sid = None"
    by (simp add: step_keeps_absent)
  with Cons show ?case by simp
qed

text \<open>
  Where the listener stands on the connection of a session and has yet to run, the close
  of the connection removes the id from the registry in that same step; and after any
  further events in which no connection mints that id again, a POST /messages with it is
  answered 404, the id being no name of a member of \<^verbatim>\<open>Object.prototype\<close>.
\<close>

lemma close_evicts_session:
  assumes listening: "sid \<in> closeListeners s"
    and minted: "sid \<notin> set objectPrototypeNames"
    and unique: "\<not> list_ex (mints sid) evs"
  shows "transports (step stringify parseFloat fetch hm s (ConnectionClose sid)) sid = None
       \<and> fst (messages_handler hm
                (run stringify parseFloat fetch hm
                   (step stringify parseFloat fetch hm s (ConnectionClose sid)) evs) sid body)
           = \<lparr>code = 404, sent = js ''Session not found or inactive''\<rparr>"
proof -
  have gone: "transports (step stringify parseFloat fetch hm s (ConnectionClose sid)) sid = None"
    using listening by (simp add: emitClose_def closeListener_def)
  then have "transports (run stringify parseFloat fetch hm
               (step stringify parseFloat fetch hm s (ConnectionClose sid)) evs) sid = None"
    using unique by (simp add: run_keeps_absent)
  then show ?thesis
    using gone minted by (simp add: post_404)
qed

lemma close_evicts_established:
  "fst (messages_handler (\<lambda>tr body. Inr ()) established sampleSessionId ())
     = \<lparr>code = 200, sent = js ''OK''\<rparr>
   \<and> fst (messages_handler (\<lambda>tr body. Inr ())
         (run sampleStringify (\<lambda>s. s) upstreamUnreachable (\<lambda>tr body. Inr ())
            (step sampleStringify (\<lambda>s. s) upstreamUnreachable (\<lambda>tr body. Inr ()) established
               (ConnectionClose sampleSessionId))
            [PostMessages sampleSessionId (), GetHealth,
             GetSse (js ''00000000-0000-4000-8000-000000000000'') (Inr ()) False False,
             ConnectionClose sampleSessionId])
         sampleSessionId ())
     = \<lparr>code = 404, sent = js ''Session not found or inactive''\<rparr>"
proof -
  have l: "sampleSessionId \<in> closeListeners established"
    by (simp add: established_registered)
  have u: "\<not> list_ex (mints sampleSessionId)
             [PostMessages sampleSessionId (), GetHealth,
              GetSse (js ''00000000-0000-4000-8000-000000000000'') (Inr ()) False False,
              ConnectionClose sampleSessionId]"
    by (simp add: sampleSessionId_def js_def)
  have live: "fst (messages_handler (\<lambda>tr body. Inr ()) established sampleSessionId ())
     = \<lparr>code = 200, sent = js ''OK''\<rparr>"
    by (rule post_200 [where u = "()"]) (simp_all add: established_registered)
  show ?thesis
    using close_evicts_session [OF l sample_not_inherited u,
        of sampleStringify "\<lambda>s. s" upstreamUnreachable "\<lambda>tr body. Inr ()" "()"] live
    by simp
qed

text \<open>
  The state after a connection to /sse on the fresh server and the close of that
  connection, where the close ran no listener: after a failed handshake, and after a
  handshake that succeeded on a request that had emitted \<^verbatim>\<open>'close'\<close> before line 109.
\<close>

lemma failed_then_closed:
  "run stringify parseFloat fetch hm initial
     [GetSse sid (Inl e) w c, ConnectionClose sid]
   = \<lparr>transports = [sid \<mapsto> \<lparr>endpoint = js ''/messages'', sessionId = sid\<rparr>],
      closeListeners = {}\<rparr>"
  by (simp add: sse_handler_def Let_def initial_def emitClose_def)

lemma late_listener_then_closed:
  "run stringify parseFloat fetch hm initial
     [GetSse sid (Inr u) w True, ConnectionClose sid]
   = \<lparr>transports = [sid \<mapsto> \<lparr>endpoint = js ''/messages'', sessionId = sid\<rparr>],
      closeListeners = {}\<rparr>"
  by (simp add: sse_handler_def Let_def initial_def emitClose_def)

text \<open>
  C3, at the inputs where the code leaves it. The claim asks that once the connection of a
  session has closed, the registry holds the session no longer and a POST /messages with
  its id is answered 404. After a connection whose handshake failed has closed, the
  session is still registered and the POST is not answered 404: it is answered 200 when
  \<^verbatim>\<open>handleMessage\<close> completes. The same holds after a handshake that succeeded on a
  request that had emitted its \<^verbatim>\<open>'close'\<close> before the listener was put on it.
\<close>

theorem closed_session_still_answers:
  "transports (run stringify parseFloat fetch hm initial
       [GetSse sampleSessionId (Inl e) w c, ConnectionClose sampleSessionId]) sampleSessionId
     = Some \<lparr>endpoint = js ''/messages'', sessionId = sampleSessionId\<rparr>
   \<and> code (fst (messages_handler hm
        (run stringify parseFloat fetch hm initial
           [GetSse sampleSessionId (Inl e) w c, ConnectionClose sampleSessionId])
        sampleSessionId body)) \<noteq> 404
   \<and> fst (messages_handler (\<lambda>tr body. Inr ())
        (run stringify parseFloat fetch (\<lambda>tr body. Inr ()) initial
           [GetSse sampleSessionId (Inl e) w c, ConnectionClose sampleSessionId])
        sampleSessionId body)
     = \<lparr>code = 200, sent = js ''OK''\<rparr>
   \<and> transports (run stringify parseFloat fetch hm initial
       [GetSse sampleSessionId (Inr u) w True, ConnectionClose sampleSessionId]) sampleSessionId
     = Some \<lparr>endpoint = js ''/messages'', sessionId = sampleSessionId\<rparr>
   \<and> fst (messages_handler (\<lambda>tr body. Inr ())
        (run stringify parseFloat fetch (\<lambda>tr body. Inr ()) initial
           [GetSse sampleSessionId (Inr u) w True, ConnectionClose sampleSessionId])
        sampleSessionId body)
     = \<lparr>code = 200, sent = js ''OK''\<rparr>"
proof -
  let ?left = "\<lparr>transports = [sampleSessionId \<mapsto> \<lparr>endpoint = js ''/messages'', sessionId = sampleSessionId\<rparr>],
      closeListeners = {}\<rparr>"
  have entry: "transports ?left sampleSessionId
                 = Some \<lparr>endpoint = js ''/messages'', sessionId = sampleSessionId\<rparr>"
    by simp
  have answered: "fst (messages_handler (\<lambda>tr body. Inr ()) ?left sampleSessionId body)
                    = \<lparr>code = 200, sent = js ''OK''\<rparr>"
    by (rule post_200 [OF entry]) simp
  have found: "code (fst (messages_handler hm ?left sampleSessionId body)) \<noteq> 404"
    by (rule post_registered_not_404 [OF entry])
  show ?thesis
    unfolding failed_then_closed late_listener_then_closed
    using entry answered found by simp
qed

text \<open>
  C1, at the input where the code leaves it. The claim asks that no entry for the
  sessionId remains after a failed handshake. When \<^verbatim>\<open>server.connect\<close> throws, the
  \<^verbatim>\<open>catch\<close> block ends the response and returns: the entry written before the handshake
  is still in the registry, and since the \<^verbatim>\<open>'close'\<close> listener was never registered, the
  close of the connection does not remove it either.
\<close>

theorem failed_handshake_leaves_entry:
  "transports (state (sse_handler stringify parseFloat fetch initial sampleSessionId (Inl e) w c))
       sampleSessionId
     = Some \<lparr>endpoint = js ''/messages'', sessionId = sampleSessionId\<rparr>
   \<and> res_ended (sse_handler stringify parseFloat fetch initial sampleSessionId (Inl e) w c)
   \<and> transports (run stringify parseFloat fetch hm initial
        [GetSse sampleSessionId (Inl e) w c, ConnectionClose sampleSessionId]) sampleSessionId
     = Some \<lparr>endpoint = js ''/messages'', sessionId = sampleSessionId\<rparr>"
  by (simp add: sse_handler_def Let_def initial_def emitClose_def)

section \<open>The command processor of a connection\<close>

text \<open>
  C9, as the code has it. Every run of the /sse handler, whatever the state, the minted id
  and the outcome of the handshake, builds a command processor with exactly one registered
  tool: its name is \<^verbatim>\<open>query_openstreetmap\<close>, its callback the arrow function of lines 68
  to 76, and its parameter schema \<^verbatim>\<open>{query: z.string()}\<close>, which accepts the arguments
  exactly when \<^verbatim>\<open>query\<close> is a string, the empty string included.
\<close>

theorem sse_registers_one_tool:
  "registeredTools (server (sse_handler stringify parseFloat fetch s sid connected w c)) =
     [\<lparr>toolName = js ''query_openstreetmap'',
       paramsSchema = [(js ''query'',
          ZodString (Some (js ''The place name, address, or landmark to search for.'')))],
       callback = toolCallback stringify parseFloat fetch\<rparr>]
   \<and> shapeAccepts
        [(js ''query'', ZodString (Some (js ''The place name, address, or landmark to search for.'')))]
        args
       = (\<exists>q. map_of args (js ''query'') = Some (JStr q))"
proof -
  have "zodAccepts (ZodString d) v = (\<exists>q. v = JStr q)" for d and v :: "'b jsvalue"
    by (cases v) simp_all
  then show ?thesis
    by (cases connected) (auto simp: sse_handler_def Let_def tool_def newMcpServer_def shapeAccepts_def
      split: option.split)
qed

text \<open>
  C9 as stated has the schema require a non-empty string. The schema of the registered
  tool accepts the empty query.
\<close>

theorem schema_accepts_empty_query:
  "map (\<lambda>t. shapeAccepts (paramsSchema t) [(js ''query'', JStr [] :: jsstring jsvalue)])
     (registeredTools (server (sse_handler sampleStringify (\<lambda>s. s) upstreamUnreachable initial
        sampleSessionId (Inr ()) False False)))
   = [True]"
  by (simp add: sse_handler_def Let_def tool_def newMcpServer_def shapeAccepts_def)

end
